theory Spec2Isabelle
  imports Complex_Main
begin

section \<open>Errors, tensors and the feature bundle\<close>

text \<open>
  The exceptions of \<^verbatim>\<open>bps.py\<close> and of the libraries it calls. \<open>ValueError\<close> with its
  message is what the source raises itself (the configuration error of the
  specification); \<open>OracleFailure\<close> is an exception raised inside the nearest-neighbour or
  the point-to-surface routine; \<open>RuntimeError\<close> is a shape or bounds failure of a tensor
  operation; \<open>IndexError\<close> an index out of range; \<open>ZeroDivisionError\<close> a division by
  the integer zero.
\<close>

datatype error =
    ValueError string
  | OracleFailure
  | RuntimeError
  | IndexError
  | ZeroDivisionError

text \<open>
  Tensors are nested lists, outermost dimension first; floating-point numbers are read as
  reals. A tensor handed to the encoder or the decoder has two or three dimensions. An
  empty dimension hides the sizes of the dimensions inside it, which are then read as 0.
  Device transfer and \<^verbatim>\<open>to_tensor\<close> leave the values as they are and are not modelled.
\<close>

type_synonym mat = "real list list"
type_synonym ten3 = "real list list list"

datatype tensor = Tensor2 mat | Tensor3 ten3

text \<open>
  \<^verbatim>\<open>is_batch = True if x.ndim > 2 else False\<close> and \<^verbatim>\<open>x.unsqueeze(0)\<close> when it is
  false: a tensor of two dimensions becomes a batch of one item.
\<close>

fun promote :: "tensor \<Rightarrow> ten3" where
  "promote (Tensor2 m) = [m]"
| "promote (Tensor3 t) = t"

definition size1 :: "'a list list \<Rightarrow> nat" where
  "size1 t = (case t of [] \<Rightarrow> 0 | c # cs \<Rightarrow> length c)"

definition size2 :: "'a list list list \<Rightarrow> nat" where
  "size2 t = (case t of [] \<Rightarrow> 0 | c # cs \<Rightarrow> size1 c)"

text \<open>The values a feature bundle holds: float or integer tensors of two or three dimensions.\<close>

datatype tval =
    Float2 mat
  | Float3 ten3
  | Long2 "nat list list"
  | Long3 "nat list list list"

type_synonym feature_bundle = "string \<rightharpoonup> tval"

section \<open>Tensor operations\<close>

fun mapE :: "('a \<Rightarrow> error + 'b) \<Rightarrow> 'a list \<Rightarrow> error + 'b list" where
  "mapE f [] = Inr []"
| "mapE f (x # xs) =
     (case f x of
        Inl e \<Rightarrow> Inl e
      | Inr y \<Rightarrow> (case mapE f xs of Inl e \<Rightarrow> Inl e | Inr ys \<Rightarrow> Inr (y # ys)))"

text \<open>
  One dimension of an elementwise operation with broadcasting: equal sizes are paired,
  a size of one is repeated against the other, anything else is a shape error.
\<close>

definition broadcast :: "('a \<Rightarrow> 'b \<Rightarrow> error + 'c) \<Rightarrow> 'a list \<Rightarrow> 'b list \<Rightarrow> error + 'c list" where
  "broadcast f xs ys =
     (if length xs = length ys then mapE (\<lambda>(x, y). f x y) (zip xs ys)
      else if length xs = 1 then mapE (\<lambda>y. f (hd xs) y) ys
      else if length ys = 1 then mapE (\<lambda>x. f x (hd ys)) xs
      else Inl RuntimeError)"

definition sub3 :: "ten3 \<Rightarrow> ten3 \<Rightarrow> error + ten3" where
  "sub3 = broadcast (broadcast (broadcast (\<lambda>a b. Inr (a - b))))"

definition add3 :: "ten3 \<Rightarrow> ten3 \<Rightarrow> error + ten3" where
  "add3 = broadcast (broadcast (broadcast (\<lambda>a b. Inr (a + b))))"

text \<open>\<^verbatim>\<open>expand\<close> of one dimension to size \<open>n\<close>.\<close>

definition expand1 :: "nat \<Rightarrow> 'a list \<Rightarrow> error + 'a list" where
  "expand1 n xs =
     (if length xs = n then Inr xs
      else if length xs = 1 then Inr (replicate n (hd xs))
      else Inl RuntimeError)"

text \<open>
  \<^verbatim>\<open>X[:, idx]\<close> for \<open>X\<close> of shape \<open>[1, P_x, D]\<close> and an index tensor of shape \<open>[A, B]\<close>:
  the result has shape \<open>[1, A, B, D]\<close>; its leading dimension of size one is left out.
\<close>

definition index_points :: "mat \<Rightarrow> nat list list \<Rightarrow> error + ten3" where
  "index_points X idx =
     mapE (mapE (\<lambda>i. if i < length X then Inr (X ! i) else Inl IndexError)) idx"

text \<open>
  \<^verbatim>\<open>deltas[fid] = V\<close> for a destination row of shape \<open>[P, D]\<close> and a value of shape
  \<open>[1, A, B, C]\<close> (given without its leading one): leading dimensions of size one are
  stripped from the value, the rest is expanded to the destination.
\<close>

definition row_of_value :: "nat \<Rightarrow> nat \<Rightarrow> ten3 \<Rightarrow> error + mat" where
  "row_of_value P D V =
     (if length V \<noteq> 1 then Inl RuntimeError
      else case expand1 P (hd V) of
             Inl e \<Rightarrow> Inl e
           | Inr rows \<Rightarrow> mapE (expand1 D) rows)"

text \<open>\<^verbatim>\<open>b2x_idxs[fid] = b2x_idx\<close> for a destination row of shape \<open>[P]\<close>.\<close>

definition row_of_index :: "nat \<Rightarrow> nat list list \<Rightarrow> error + nat list" where
  "row_of_index P idx = (if length idx \<noteq> 1 then Inl RuntimeError else expand1 P (hd idx))"

text \<open>
  \<^verbatim>\<open>x.gather(1, index)\<close> for \<open>x\<close> of shape \<open>[N, P_x, D]\<close> and an index of shape
  \<open>[N, P, F]\<close>: the index may not be larger than \<open>x\<close> outside dimension 1, and every
  index value must be below \<open>P_x\<close>.
\<close>

definition gather_row :: "mat \<Rightarrow> nat list \<Rightarrow> error + real list" where
  "gather_row xn row =
     mapE (\<lambda>(d, i). if i < length xn \<and> d < length (xn ! i) then Inr (xn ! i ! d)
                     else Inl RuntimeError)
       (zip [0..<length row] row)"

definition gather :: "nat \<Rightarrow> ten3 \<Rightarrow> nat \<Rightarrow> nat list list list \<Rightarrow> error + ten3" where
  "gather D x F index =
     (if length index \<le> length x \<and> F \<le> D
      then mapE (\<lambda>(xn, idxn). mapE (gather_row xn) idxn) (zip x index)
      else Inl RuntimeError)"

text \<open>\<^verbatim>\<open>b2x_idxs.view(N, P_bps, 1).expand(N, P_bps, F)\<close>.\<close>

definition expand_ids :: "nat \<Rightarrow> nat list list \<Rightarrow> nat list list list" where
  "expand_ids F b2x_idxs = map (map (replicate F)) b2x_idxs"

section \<open>The point-cloud encoder\<close>

text \<open>
  The nearest-neighbour routine \<^verbatim>\<open>chd.ChamferDistance()\<close> is an external library and a
  parameter of the model: called with the basis points \<open>Y\<close> and one input cloud \<open>X\<close> (both
  with their batch dimension) it returns \<^verbatim>\<open>(b2x, x2b, b2x_idx, x2b_idx)\<close>, or fails.
\<close>

type_synonym chamfer = "ten3 \<Rightarrow> ten3 \<Rightarrow> (mat \<times> mat \<times> nat list list \<times> nat list list) option"

text \<open>Lines 115 to 118: the basis the item \<open>fid\<close> is matched against.\<close>

definition basis_item :: "ten3 \<Rightarrow> nat \<Rightarrow> nat \<Rightarrow> ten3" where
  "basis_item bps N fid = (if length bps = N then [bps ! fid] else bps)"

text \<open>The body of the loop over \<^verbatim>\<open>fid\<close> (lines 115 to 122): the two rows it assigns.\<close>

definition enc_item :: "chamfer \<Rightarrow> ten3 \<Rightarrow> ten3 \<Rightarrow> nat \<Rightarrow> error + (mat \<times> nat list)" where
  "enc_item ch_dist bps x fid =
     (let P_bps = size1 bps; N = length x; D = size2 x;
          Y = basis_item bps N fid;
          X = [x ! fid]
      in case ch_dist Y X of
           None \<Rightarrow> Inl OracleFailure
         | Some (b2x, x2b, b2x_idx, x2b_idx) \<Rightarrow>
             (case index_points (hd X) b2x_idx of
                Inl e \<Rightarrow> Inl e
              | Inr Xi \<Rightarrow>
                  (case sub3 Xi Y of
                     Inl e \<Rightarrow> Inl e
                   | Inr V \<Rightarrow>
                       (case row_of_value P_bps D V of
                          Inl e \<Rightarrow> Inl e
                        | Inr drow \<Rightarrow>
                            (case row_of_index P_bps b2x_idx of
                               Inl e \<Rightarrow> Inl e
                             | Inr irow \<Rightarrow> Inr (drow, irow))))))"

text \<open>
  The loop \<^verbatim>\<open>for fid in range(0, N)\<close>, threading the two arrays it fills; the first
  failing item ends the call.
\<close>

fun enc_loop :: "chamfer \<Rightarrow> ten3 \<Rightarrow> ten3 \<Rightarrow> nat list \<Rightarrow> ten3 \<times> nat list list
                  \<Rightarrow> error + (ten3 \<times> nat list list)" where
  "enc_loop ch_dist bps x [] st = Inr st"
| "enc_loop ch_dist bps x (fid # fids) (deltas, b2x_idxs) =
     (case enc_item ch_dist bps x fid of
        Inl e \<Rightarrow> Inl e
      | Inr (drow, irow) \<Rightarrow>
          enc_loop ch_dist bps x fids (deltas[fid := drow], b2x_idxs[fid := irow]))"

definition zeros3 :: "nat \<Rightarrow> nat \<Rightarrow> nat \<Rightarrow> ten3" where
  "zeros3 N P D = replicate N (replicate P (replicate D 0))"

definition zeros2 :: "nat \<Rightarrow> nat \<Rightarrow> nat list list" where
  "zeros2 N P = replicate N (replicate P 0)"

definition dists_of :: "ten3 \<Rightarrow> mat" where
  "dists_of deltas = map (map (\<lambda>v. sqrt (sum_list (map (\<lambda>d. d ^ 2) v)))) deltas"

text \<open>
  The \<^verbatim>\<open>try\<close> block of the \<open>features\<close> branch (lines 137 to 143): whatever fails inside
  it is caught by the bare \<^verbatim>\<open>except\<close> and raised again as the one \<open>ValueError\<close>. The
  gather reads \<open>x\<close>, as the source does; of \<open>x_features\<close> only the size of its last
  dimension is used.
\<close>

definition features_of :: "nat \<Rightarrow> ten3 \<Rightarrow> nat list list \<Rightarrow> ten3 option \<Rightarrow> error + ten3" where
  "features_of D x b2x_idxs x_features =
     (case (case x_features of
              None \<Rightarrow> Inl RuntimeError
            | Some xf \<Rightarrow> (let F = size2 xf in gather D x F (expand_ids F b2x_idxs))) of
        Inl e \<Rightarrow> Inl (ValueError ''No x_features parameter is provided!'')
      | Inr v \<Rightarrow> Inr v)"

text \<open>The message of line 145; it ends with a single quote.\<close>

definition invalid_cell_type :: string where
  "invalid_cell_type =
     ''Invalid cell type. Supported types: 'dists', 'deltas', 'closest', 'features'' @ [CHR 0x27]"

definition enc_points :: "ten3 \<Rightarrow> chamfer \<Rightarrow> tensor \<Rightarrow> string list \<Rightarrow> ten3 option \<Rightarrow> ten3 option
                          \<Rightarrow> error + feature_bundle" where
  "enc_points self_bps ch_dist x0 feature_type x_features custom_basis =
     (let x = promote x0;
          bps = (case custom_basis of None \<Rightarrow> self_bps | Some cb \<Rightarrow> cb);
          P_bps = size1 bps;
          N = length x; D = size2 x
      in case enc_loop ch_dist bps x [0..<N] (zeros3 N P_bps D, zeros2 N P_bps) of
           Inl e \<Rightarrow> Inl e
         | Inr (deltas, b2x_idxs) \<Rightarrow>
             (let x_bps = Map.empty;
                  x_bps = (if ''dists'' \<in> set feature_type
                           then x_bps(''dists'' \<mapsto> Float2 (dists_of deltas)) else x_bps);
                  x_bps = (if ''deltas'' \<in> set feature_type
                           then x_bps(''deltas'' \<mapsto> Float3 deltas) else x_bps)
              in case (if ''closest'' \<in> set feature_type
                       then (case gather D x D (expand_ids D b2x_idxs) of
                               Inl e \<Rightarrow> Inl e
                             | Inr c \<Rightarrow> Inr (x_bps(''closest'' \<mapsto> Float3 c,
                                                  ''closest_ids'' \<mapsto> Long3 (expand_ids D b2x_idxs))))
                       else Inr x_bps) of
                   Inl e \<Rightarrow> Inl e
                 | Inr x_bps \<Rightarrow>
                     (case (if ''features'' \<in> set feature_type
                            then (case features_of D x b2x_idxs x_features of
                                    Inl e \<Rightarrow> Inl e
                                  | Inr f \<Rightarrow> Inr (x_bps(''features'' \<mapsto> Float3 f)))
                            else Inr x_bps) of
                        Inl e \<Rightarrow> Inl e
                      | Inr x_bps \<Rightarrow>
                          (if x_bps = Map.empty
                           then Inl (ValueError invalid_cell_type)
                           else Inr (x_bps(''ids'' \<mapsto> Long2 b2x_idxs))))))"

section \<open>The decoder\<close>

text \<open>
  \<^verbatim>\<open>decode\<close>: the deltas are promoted to a batch, the basis is expanded to
  \<open>[N, P_bps, D]\<close> (\<open>P_bps\<close> read from the basis, \<open>N\<close> and \<open>D\<close> from the deltas) and
  added. A basis has three dimensions here, so line 176 never applies.
\<close>

definition decode :: "ten3 \<Rightarrow> tensor \<Rightarrow> ten3 option \<Rightarrow> error + ten3" where
  "decode self_bps x_deltas custom_basis =
     (let x = promote x_deltas;
          bps = (case custom_basis of None \<Rightarrow> self_bps | Some cb \<Rightarrow> cb);
          P_bps = size1 bps;
          N = length x; D = size2 x
      in case expand1 N bps of
           Inl e \<Rightarrow> Inl e
         | Inr b1 \<Rightarrow>
             (case mapE (\<lambda>c. case expand1 P_bps c of
                                Inl e \<Rightarrow> Inl e
                              | Inr c' \<Rightarrow> mapE (expand1 D) c') b1 of
                Inl e \<Rightarrow> Inl e
              | Inr bps_expanded \<Rightarrow> add3 bps_expanded x))"

section \<open>The mesh encoder\<close>

text \<open>
  The point-to-surface routine \<^verbatim>\<open>point2surface\<close> is a parameter: called with the meshes
  and the scaled, repeated basis it returns a tensor, given by its elements in row-major
  order, or fails. The meshes themselves are opaque. What \<^verbatim>\<open>print\<close> writes is returned
  beside the result.
\<close>

type_synonym 'm surface = "'m list \<Rightarrow> ten3 \<Rightarrow> real list option"

text \<open>\<^verbatim>\<open>b2o.reshape(N, -1)\<close>.\<close>

fun chunks :: "nat \<Rightarrow> nat \<Rightarrow> 'a list \<Rightarrow> 'a list list" where
  "chunks 0 k xs = []"
| "chunks (Suc n) k xs = take k xs # chunks n k (drop k xs)"

definition reshape_rows :: "nat \<Rightarrow> real list \<Rightarrow> error + mat" where
  "reshape_rows N b2o =
     (if N = 0 \<or> length b2o mod N \<noteq> 0 then Inl RuntimeError
      else Inr (chunks N (length b2o div N) b2o))"

definition scale :: real where
  "scale = 1000"

text \<open>\<^verbatim>\<open>(bps * scale).repeat(N, 1, 1)\<close>, the points of \<^verbatim>\<open>bps_pc\<close>.\<close>

definition scaled_basis :: "ten3 \<Rightarrow> nat \<Rightarrow> ten3" where
  "scaled_basis bps N = concat (replicate N (map (map (map (\<lambda>v. v * scale))) bps))"

definition enc_mesh :: "ten3 \<Rightarrow> 'm surface \<Rightarrow> 'm list \<Rightarrow> string list \<Rightarrow> ten3 option
                        \<Rightarrow> string list \<times> (error + feature_bundle)" where
  "enc_mesh self_bps point2surface x feature_type custom_basis =
     (if x = [] then ([], Inl IndexError)
      else
        let bps = (case custom_basis of None \<Rightarrow> self_bps | Some cb \<Rightarrow> cb);
            N = length x;
            bps_pc = scaled_basis bps N
        in case point2surface x bps_pc of
             None \<Rightarrow> ([], Inl OracleFailure)
           | Some b2o \<Rightarrow>
               (let out = (if ''dists'' \<notin> set feature_type
                           then [''bps_torch currently only supports dists!''] else [])
                in case reshape_rows N b2o of
                     Inl e \<Rightarrow> (out, Inl e)
                   | Inr d \<Rightarrow> (out, Inr [''dists'' \<mapsto> Float2 d])))"

section \<open>The dispatcher\<close>

datatype 'm encode_input = Points tensor | Meshes "'m list" | Other

definition encode :: "ten3 \<Rightarrow> chamfer \<Rightarrow> 'm surface \<Rightarrow> 'm encode_input \<Rightarrow> string list
                      \<Rightarrow> ten3 option \<Rightarrow> ten3 option \<Rightarrow> string list \<times> (error + feature_bundle)" where
  "encode self_bps ch_dist point2surface x feature_type x_features custom_basis =
     (case x of
        Points t \<Rightarrow> ([], enc_points self_bps ch_dist t feature_type x_features custom_basis)
      | Meshes ms \<Rightarrow> enc_mesh self_bps point2surface ms feature_type custom_basis
      | Other \<Rightarrow> ([], Inl (ValueError
          ''Invalid input: Please give either 'pointclouds' or 'meshes' as the argument to compute BPS.'')))"

section \<open>Construction\<close>

text \<open>
  The four samplers of \<^verbatim>\<open>tools.py\<close> are parameters, each with the arguments the
  constructor passes to it: \<^verbatim>\<open>sample_grid_cube\<close> is called with the grid size and the
  two bounds only. A sampler returns an array of points.
\<close>

record samplers =
  sample_sphere_uniform :: "nat \<Rightarrow> nat \<Rightarrow> real \<Rightarrow> int \<Rightarrow> mat"
  sample_sphere_nonuniform :: "nat \<Rightarrow> nat \<Rightarrow> real \<Rightarrow> int \<Rightarrow> mat"
  sample_grid_cube :: "nat \<Rightarrow> real \<Rightarrow> real \<Rightarrow> mat"
  sample_grid_sphere :: "nat \<Rightarrow> nat \<Rightarrow> real \<Rightarrow> bool \<Rightarrow> mat"

text \<open>\<^verbatim>\<open>np.round\<close> rounds a half to the even neighbour.\<close>

definition np_round :: "real \<Rightarrow> int" where
  "np_round v = (if frac v = 1 / 2 then (if even \<lfloor>v\<rfloor> then \<lfloor>v\<rfloor> else \<lfloor>v\<rfloor> + 1) else round v)"

text \<open>\<^verbatim>\<open>int(np.round(np.power(n_bps_points, 1 / n_dims)))\<close>, for \<open>n_dims\<close> not zero.\<close>

definition grid_size_of :: "nat \<Rightarrow> nat \<Rightarrow> nat" where
  "grid_size_of n_bps_points n_dims = nat (np_round (real n_bps_points powr (1 / real n_dims)))"

fun elements :: "tensor \<Rightarrow> real list" where
  "elements (Tensor2 m) = concat m"
| "elements (Tensor3 t) = concat (concat t)"

text \<open>\<^verbatim>\<open>basis_set.reshape(1, -1, n_dims)\<close> on the elements of the array.\<close>

definition reshape_basis :: "nat \<Rightarrow> real list \<Rightarrow> error + ten3" where
  "reshape_basis n_dims elems =
     (if n_dims = 0 \<or> length elems mod n_dims \<noteq> 0 then Inl RuntimeError
      else Inr [chunks (length elems div n_dims) n_dims elems])"

text \<open>The message of line 70; it ends with a single quote.\<close>

definition invalid_basis_type :: string where
  "invalid_basis_type =
     ''Invalid basis type. Supported types: 'random_uniform', 'random_nonuniform', 'grid_cube', 'grid_sphere', and 'custom'' @ [CHR 0x27]"

definition bps_torch_init :: "samplers \<Rightarrow> string \<Rightarrow> nat \<Rightarrow> real \<Rightarrow> nat \<Rightarrow> int \<Rightarrow> bool
                              \<Rightarrow> tensor option \<Rightarrow> error + ten3" where
  "bps_torch_init S bps_type0 n_bps_points radius n_dims random_seed randomize custom_basis =
     (let bps_type = (if custom_basis \<noteq> None then ''custom'' else bps_type0)
      in case
           (if bps_type = ''random_uniform''
            then Inr (concat (sample_sphere_uniform S n_bps_points n_dims radius random_seed))
            else if bps_type = ''random_nonuniform''
            then Inr (concat (sample_sphere_nonuniform S n_bps_points n_dims radius random_seed))
            else if bps_type = ''grid_cube''
            then (if n_dims = 0 then Inl ZeroDivisionError
                  else let grid_size = grid_size_of n_bps_points n_dims
                       in Inr (concat (sample_grid_cube S grid_size (- radius) radius)))
            else if bps_type = ''grid_sphere''
            then Inr (concat (sample_grid_sphere S n_bps_points n_dims radius randomize))
            else if bps_type = ''custom''
            then (case custom_basis of
                    Some cb \<Rightarrow> Inr (elements cb)
                  | None \<Rightarrow> Inl (ValueError
                      ''Custom BPS arrangement selected, but no custom_basis provided.''))
            else Inl (ValueError invalid_basis_type))
         of Inl e \<Rightarrow> Inl e
          | Inr basis_set \<Rightarrow> reshape_basis n_dims basis_set)"

section \<open>A nearest-neighbour routine\<close>

text \<open>
  One routine of the kind the encoder is called with, used where a concrete one is needed:
  for every basis point the first input point at the least squared distance, and the
  same with the roles exchanged.
\<close>

definition sqdist :: "real list \<Rightarrow> real list \<Rightarrow> real" where
  "sqdist p q = sum_list (map (\<lambda>(a, b). (a - b) ^ 2) (zip p q))"

fun argmin :: "real list \<Rightarrow> nat" where
  "argmin [] = 0"
| "argmin [v] = 0"
| "argmin (v # w # ws) = (let j = argmin (w # ws) in if v \<le> (w # ws) ! j then 0 else Suc j)"

definition nearest :: "mat \<Rightarrow> real list \<Rightarrow> nat" where
  "nearest X y = argmin (map (sqdist y) X)"

definition nn_chamfer :: chamfer where
  "nn_chamfer Y X =
     (if X = [] \<or> hd X = [] \<or> (\<exists>c \<in> set Y. c = []) then None
      else Some (map (map (\<lambda>y. sqdist y (hd X ! nearest (hd X) y))) Y,
                 map (\<lambda>c. map (\<lambda>p. sqdist p (c ! nearest c p)) (hd X)) Y,
                 map (map (nearest (hd X))) Y,
                 map (\<lambda>c. map (nearest c) (hd X)) Y))"

section \<open>Well-formed calls\<close>

text \<open>A tensor of shape \<open>[N, P, D]\<close>.\<close>

definition has_shape :: "'a list list list \<Rightarrow> nat \<Rightarrow> nat \<Rightarrow> nat \<Rightarrow> bool" where
  "has_shape t N P D =
     (length t = N \<and> list_all (\<lambda>c. length c = P \<and> list_all (\<lambda>p. length p = D) c) t)"

text \<open>
  The nearest-neighbour routine answers the call \<open>ch_dist Y X\<close> as its interface asks:
  one row of indices per item of \<open>Y\<close>, one index per basis point, each the index of a
  point of \<open>X\<close>.
\<close>

definition answers :: "chamfer \<Rightarrow> ten3 \<Rightarrow> ten3 \<Rightarrow> bool" where
  "answers ch_dist Y X =
     (case ch_dist Y X of
        None \<Rightarrow> False
      | Some (b2x, x2b, b2x_idx, x2b_idx) \<Rightarrow>
          list_all2 (\<lambda>row c. length row = length c \<and> list_all (\<lambda>i. i < size1 X) row) b2x_idx Y)"

text \<open>
  A well-formed call of the point-cloud encoder: the input has shape \<open>[N, P_x, D]\<close>, the
  basis has shape \<open>[N, P, D]\<close> or \<open>[1, P, D]\<close>, and the routine answers each of the \<open>N\<close>
  calls the loop makes.
\<close>

definition well_formed :: "chamfer \<Rightarrow> ten3 \<Rightarrow> ten3 \<Rightarrow> nat \<Rightarrow> nat \<Rightarrow> nat \<Rightarrow> bool" where
  "well_formed ch_dist bps x P P_x D =
     (has_shape x (length x) P_x D \<and>
      (has_shape bps (length x) P D \<or> has_shape bps 1 P D) \<and>
      list_all (\<lambda>fid. answers ch_dist (basis_item bps (length x) fid) [x ! fid]) [0..<length x])"

text \<open>
  The routine, where it answers the call \<open>ch_dist Y X\<close> at all, returns one row of
  indices for each item of \<open>Y\<close>.
\<close>

definition answers_rows :: "chamfer \<Rightarrow> ten3 \<Rightarrow> ten3 \<Rightarrow> bool" where
  "answers_rows ch_dist Y X =
     (case ch_dist Y X of
        None \<Rightarrow> True
      | Some (b2x, x2b, b2x_idx, x2b_idx) \<Rightarrow> length b2x_idx = length Y)"

section \<open>Notions used in the statements\<close>

text \<open>A matrix of shape \<open>[P, D]\<close>; pointwise difference and sum of two points.\<close>

definition mat_shape :: "'a list list \<Rightarrow> nat \<Rightarrow> nat \<Rightarrow> bool" where
  "mat_shape m P D = (length m = P \<and> list_all (\<lambda>p. length p = D) m)"

definition sub1 :: "real list \<Rightarrow> real list \<Rightarrow> real list" where
  "sub1 p q = map (\<lambda>(a, b). a - b) (zip p q)"

definition add1 :: "real list \<Rightarrow> real list \<Rightarrow> real list" where
  "add1 p q = map (\<lambda>(a, b). a + b) (zip p q)"

text \<open>
  The row of deltas of one item: for each basis point \<open>q\<close> and its index \<open>i\<close> the
  difference of the input point \<open>i\<close> and \<open>q\<close>.
\<close>

definition delta_row :: "mat \<Rightarrow> mat \<Rightarrow> nat list \<Rightarrow> mat" where
  "delta_row Xm B row = map (\<lambda>(i, q). sub1 (Xm ! i) q) (zip row B)"

definition basis_mat :: "ten3 \<Rightarrow> nat \<Rightarrow> nat \<Rightarrow> mat" where
  "basis_mat bps N fid = hd (basis_item bps N fid)"

section \<open>Concrete routines and inputs\<close>

text \<open>
  Stand-ins for the external routines where a concrete one is needed: samplers that return
  \<open>n\<close> copies of one point (the grid sampler a cube of three dimensions), and a surface
  routine for which every mesh is the plane of points whose first coordinate is zero.
\<close>

definition example_samplers :: samplers where
  "example_samplers =
     \<lparr> sample_sphere_uniform = (\<lambda>n d r seed. replicate n (replicate d r)),
       sample_sphere_nonuniform = (\<lambda>n d r seed. replicate n (replicate d r)),
       sample_grid_cube = (\<lambda>g lo hi. replicate (g ^ 3) [lo, hi, lo]),
       sample_grid_sphere = (\<lambda>n d r rz. replicate n (replicate d r)) \<rparr>"

definition plane_surface :: "unit surface" where
  "plane_surface ms pc = Some (concat (map (map (\<lambda>p. \<bar>hd p\<bar>)) pc))"

definition bps1 :: ten3 where
  "bps1 = [[[0, 0], [1, 1]]]"

definition x1 :: ten3 where
  "x1 = [[[1, 2], [0, 1], [5, 5]]]"

section \<open>Evaluation on concrete inputs\<close>

lemmas enc_eval = enc_points_def enc_item_def basis_item_def nn_chamfer_def nearest_def
  sqdist_def index_points_def sub3_def broadcast_def row_of_value_def row_of_index_def
  expand1_def size1_def size2_def zeros3_def zeros2_def gather_def gather_row_def
  expand_ids_def features_of_def bps1_def x1_def

lemmas mesh_eval = enc_mesh_def scaled_basis_def plane_surface_def bps1_def scale_def
  reshape_rows_def

section \<open>Properties of the tensor operations and of the loop\<close>


lemma mapE_Inr: "(\<And>x. x \<in> set xs \<Longrightarrow> f x = Inr (g x)) \<Longrightarrow> mapE f xs = Inr (map g xs)"
  by (induction xs) auto

lemma mapE_Inl: "mapE f xs = Inl e \<Longrightarrow> \<exists>x \<in> set xs. f x = Inl e"
  by (induction xs) (auto split: sum.splits)

lemma mapE_length: "mapE f xs = Inr ys \<Longrightarrow> length ys = length xs"
  by (induction xs arbitrary: ys) (auto split: sum.splits)

lemma mapE_id: "(\<And>x. x \<in> set xs \<Longrightarrow> f x = Inr x) \<Longrightarrow> mapE f xs = Inr xs"
  using mapE_Inr [of xs f "\<lambda>x. x"] by simp

lemma expand1_same: "length xs = n \<Longrightarrow> expand1 n xs = Inr xs"
  by (simp add: expand1_def)

lemma broadcast_same:
  assumes "length xs = length ys"
    and "\<And>i. i < length xs \<Longrightarrow> f (xs ! i) (ys ! i) = Inr (g (xs ! i) (ys ! i))"
  shows "broadcast f xs ys = Inr (map (\<lambda>(x, y). g x y) (zip xs ys))"
proof -
  have "mapE (\<lambda>(x, y). f x y) (zip xs ys) = Inr (map (\<lambda>(x, y). g x y) (zip xs ys))"
  proof (rule mapE_Inr)
    fix p assume "p \<in> set (zip xs ys)"
    then obtain i where "i < length xs" "p = (xs ! i, ys ! i)"
      using assms(1) by (auto simp: set_zip)
    then show "(case p of (x, y) \<Rightarrow> f x y) = Inr (case p of (x, y) \<Rightarrow> g x y)"
      using assms(2) by simp
  qed
  then show ?thesis using assms(1) by (simp add: broadcast_def)
qed

lemma broadcast_sub1: "length p = length q \<Longrightarrow> broadcast (\<lambda>a b. Inr (a - b)) p q = Inr (sub1 p q)"
  unfolding sub1_def by (rule broadcast_same) auto

lemma broadcast_add1: "length p = length q \<Longrightarrow> broadcast (\<lambda>a b. Inr (a + b)) p q = Inr (add1 p q)"
  unfolding add1_def by (rule broadcast_same) auto

lemma add1_sub1: "length p = length q \<Longrightarrow> add1 q (sub1 p q) = p"
  by (rule nth_equalityI) (auto simp: add1_def sub1_def)

lemma length_sub1: "length p = length q \<Longrightarrow> length (sub1 p q) = length q"
  by (simp add: sub1_def)

lemma has_shape_nth: "has_shape t N P D \<Longrightarrow> n < N \<Longrightarrow> mat_shape (t ! n) P D"
  by (auto simp: has_shape_def mat_shape_def list_all_iff)

lemma broadcast_sub2:
  assumes "mat_shape A P D" "mat_shape B P D"
  shows "broadcast (broadcast (\<lambda>a b. Inr (a - b))) A B = Inr (map (\<lambda>(p, q). sub1 p q) (zip A B))"
proof (rule broadcast_same)
  show "length A = length B" using assms by (simp add: mat_shape_def list_all_iff)
next
  fix i assume "i < length A"
  then have "length (A ! i) = length (B ! i)" using assms by (simp add: mat_shape_def list_all_iff)
  then show "broadcast (\<lambda>a b. Inr (a - b)) (A ! i) (B ! i) = Inr (sub1 (A ! i) (B ! i))"
    by (rule broadcast_sub1)
qed

lemma broadcast_add2:
  assumes "mat_shape A P D" "mat_shape B P D"
  shows "broadcast (broadcast (\<lambda>a b. Inr (a + b))) A B = Inr (map (\<lambda>(p, q). add1 p q) (zip A B))"
proof (rule broadcast_same)
  show "length A = length B" using assms by (simp add: mat_shape_def list_all_iff)
next
  fix i assume "i < length A"
  then have "length (A ! i) = length (B ! i)" using assms by (simp add: mat_shape_def list_all_iff)
  then show "broadcast (\<lambda>a b. Inr (a + b)) (A ! i) (B ! i) = Inr (add1 (A ! i) (B ! i))"
    by (rule broadcast_add1)
qed



lemma broadcast_single:
  "broadcast f [a] [b] = (case f a b of Inl e \<Rightarrow> Inl e | Inr y \<Rightarrow> Inr [y])"
  by (simp add: broadcast_def split: sum.splits)

lemma enc_item_ok:
  assumes Y: "basis_item bps (length x) fid = [B]"
    and B: "mat_shape B P D"
    and P: "size1 bps = P"
    and X: "mat_shape (x ! fid) P_x D"
    and D: "0 < P_x \<Longrightarrow> size2 x = D"
    and ans: "answers ch_dist [B] [x ! fid]"
  shows "\<exists>row. enc_item ch_dist bps x fid = Inr (delta_row (x ! fid) B row, row)
              \<and> length row = P \<and> (\<forall>i \<in> set row. i < P_x)"
proof -
  let ?X = "x ! fid"
  obtain b2x x2b idx x2b_idx where ch: "ch_dist [B] [?X] = Some (b2x, x2b, idx, x2b_idx)"
    and la: "list_all2 (\<lambda>row c. length row = length c \<and> list_all (\<lambda>i. i < size1 [?X]) row) idx [B]"
    using ans by (auto simp: answers_def split: option.splits)
  from la obtain row where idx: "idx = [row]" and lrow: "length row = length B"
    and inr: "list_all (\<lambda>i. i < size1 [?X]) row"
    by (auto simp: list_all2_Cons2)
  have lenP: "length row = P" using lrow B by (simp add: mat_shape_def list_all_iff)
  have lenB: "length B = P" using B by (simp add: mat_shape_def list_all_iff)
  have rng: "\<forall>i \<in> set row. i < P_x"
    using inr X by (auto simp: size1_def mat_shape_def list_all_iff)
  have rngX: "\<And>i. i \<in> set row \<Longrightarrow> i < length ?X"
    using rng X by (simp add: mat_shape_def list_all_iff)
  have ip1: "mapE (\<lambda>i. if i < length ?X then Inr (?X ! i) else Inl IndexError) row
               = Inr (map (\<lambda>i. ?X ! i) row)"
    by (rule mapE_Inr) (simp add: rngX)
  have ip: "index_points ?X idx = Inr [map (\<lambda>i. ?X ! i) row]"
    by (simp add: index_points_def idx ip1)
  let ?Xi = "map (\<lambda>i. ?X ! i) row"
  have shXi: "mat_shape ?Xi P D"
    using lenP rngX X by (auto simp: mat_shape_def list_all_iff)
  have s2: "broadcast (broadcast (\<lambda>a b. Inr (a - b))) ?Xi B
              = Inr (map (\<lambda>(p, q). sub1 p q) (zip ?Xi B))"
    using shXi B by (rule broadcast_sub2)
  have zm: "map (\<lambda>(p, q). sub1 p q) (zip ?Xi B) = delta_row ?X B row"
    by (simp add: delta_row_def zip_map1 case_prod_beta)
  have s3: "sub3 [?Xi] [B] = Inr [delta_row ?X B row]"
    by (simp add: sub3_def broadcast_single s2 zm)
  let ?M = "delta_row ?X B row"
  have lenM: "length ?M = P" by (simp add: delta_row_def lenP lenB)
  have elM: "\<And>r. r \<in> set ?M \<Longrightarrow> length r = D"
  proof -
    fix r assume "r \<in> set ?M"
    then obtain i q where iq: "(i, q) \<in> set (zip row B)" and r: "r = sub1 (?X ! i) q"
      by (auto simp: delta_row_def)
    from iq have "i \<in> set row" "q \<in> set B" by (auto dest: set_zip_leftD set_zip_rightD)
    then have "length (?X ! i) = D" "length q = D"
      using rngX X B by (auto simp: mat_shape_def list_all_iff)
    then show "length r = D" by (simp add: r sub1_def)
  qed
  have exD: "mapE (expand1 (size2 x)) ?M = Inr ?M"
  proof (rule mapE_id)
    fix r assume r: "r \<in> set ?M"
    then have "0 < P" using lenM by (cases ?M) auto
    then obtain i where "i \<in> set row" using lenP by (cases row) auto
    then have "0 < P_x" using rng by force
    then have "size2 x = D" by (rule D)
    then show "expand1 (size2 x) r = Inr r" using elM [OF r] by (simp add: expand1_same)
  qed
  have rv: "row_of_value P (size2 x) [?M] = Inr ?M"
    by (simp add: row_of_value_def expand1_same [OF lenM] exD)
  have ri: "row_of_index P idx = Inr row"
    by (simp add: row_of_index_def idx expand1_same [OF lenP])
  have "enc_item ch_dist bps x fid = Inr (?M, row)"
    by (simp add: enc_item_def Let_def Y ch ip s3 P rv ri)
  then show ?thesis using lenP rng by blast
qed



lemma enc_loop_fold:
  assumes "\<And>fid. fid \<in> set fids \<Longrightarrow> enc_item ch_dist bps x fid = Inr (f fid, g fid)"
  shows "enc_loop ch_dist bps x fids (ds, js)
           = Inr (fold (\<lambda>fid d. d[fid := f fid]) fids ds, fold (\<lambda>fid j. j[fid := g fid]) fids js)"
  using assms by (induction fids arbitrary: ds js) auto

lemma fold_update_upt_aux:
  "n \<le> length ds \<Longrightarrow> fold (\<lambda>i d. d[i := f i]) [0..<n] ds = map f [0..<n] @ drop n ds"
proof (induction n)
  case 0
  then show ?case by simp
next
  case (Suc n)
  then have n: "n < length ds" by simp
  have "fold (\<lambda>i d. d[i := f i]) [0..<Suc n] ds = (map f [0..<n] @ drop n ds)[n := f n]"
    using Suc by simp
  also have "\<dots> = map f [0..<n] @ (drop n ds)[0 := f n]"
    by (simp add: list_update_append)
  also have "drop n ds = ds ! n # drop (Suc n) ds"
    using n by (simp add: Cons_nth_drop_Suc)
  finally show ?case by simp
qed

lemma fold_update_upt:
  "length ds = n \<Longrightarrow> fold (\<lambda>i d. d[i := f i]) [0..<n] ds = map f [0..<n]"
  using fold_update_upt_aux [of n ds f] by simp

lemma well_formed_item:
  assumes wf: "well_formed ch_dist bps x P P_x D" and fid: "fid < length x"
  shows "basis_item bps (length x) fid = [basis_mat bps (length x) fid]"
    and "mat_shape (basis_mat bps (length x) fid) P D"
    and "size1 bps = P"
    and "mat_shape (x ! fid) P_x D"
    and "0 < P_x \<Longrightarrow> size2 x = D"
    and "answers ch_dist [basis_mat bps (length x) fid] [x ! fid]"
proof -
  have shx: "has_shape x (length x) P_x D"
    and shb: "has_shape bps (length x) P D \<or> has_shape bps 1 P D"
    and an: "answers ch_dist (basis_item bps (length x) fid) [x ! fid]"
    using wf fid by (auto simp: well_formed_def list_all_iff)
  show item: "basis_item bps (length x) fid = [basis_mat bps (length x) fid]"
  proof (cases "length bps = length x")
    case True
    then show ?thesis by (simp add: basis_item_def basis_mat_def)
  next
    case False
    then have "length bps = 1" using shb by (auto simp: has_shape_def)
    then obtain B where "bps = [B]" by (cases bps) auto
    then show ?thesis using False by (simp add: basis_item_def basis_mat_def)
  qed
  have bne: "bps \<noteq> []" using shb fid by (auto simp: has_shape_def)
  have allb: "\<forall>c \<in> set bps. mat_shape c P D"
    using shb by (auto simp: has_shape_def mat_shape_def list_all_iff)
  have "basis_mat bps (length x) fid \<in> set bps"
  proof (cases "length bps = length x")
    case True
    then show ?thesis using fid by (simp add: basis_item_def basis_mat_def)
  next
    case False
    then show ?thesis using bne by (simp add: basis_item_def basis_mat_def)
  qed
  then show "mat_shape (basis_mat bps (length x) fid) P D" using allb by blast
  show "size1 bps = P"
    using bne allb by (cases bps) (auto simp: size1_def mat_shape_def list_all_iff)
  show X: "mat_shape (x ! fid) P_x D" using shx fid by (rule has_shape_nth)
  show "answers ch_dist [basis_mat bps (length x) fid] [x ! fid]" using an item by simp
  show "size2 x = D" if px: "0 < P_x"
  proof -
    obtain c cs where x: "x = c # cs" using fid by (cases x) auto
    then have c: "mat_shape c P_x D" using has_shape_nth [OF shx, of 0] by simp
    then obtain p ps where "c = p # ps" using px by (cases c) (auto simp: mat_shape_def list_all_iff)
    then show ?thesis using c x by (simp add: size2_def size1_def mat_shape_def list_all_iff)
  qed
qed

lemma enc_loop_ok:
  assumes wf: "well_formed ch_dist bps x P P_x D"
  shows "\<exists>ids. enc_loop ch_dist bps x [0..<length x] (zeros3 (length x) Pz Dz, zeros2 (length x) Pz)
            = Inr (map (\<lambda>n. delta_row (x ! n) (basis_mat bps (length x) n) (ids ! n)) [0..<length x], ids)
          \<and> length ids = length x
          \<and> (\<forall>n < length x. length (ids ! n) = P \<and> (\<forall>i \<in> set (ids ! n). i < P_x))"
proof -
  let ?N = "length x"
  have "\<forall>fid \<in> {..<?N}. \<exists>row. enc_item ch_dist bps x fid
            = Inr (delta_row (x ! fid) (basis_mat bps ?N fid) row, row)
          \<and> length row = P \<and> (\<forall>i \<in> set row. i < P_x)"
  proof
    fix fid assume "fid \<in> {..<?N}"
    then have fid: "fid < ?N" by simp
    show "\<exists>row. enc_item ch_dist bps x fid
            = Inr (delta_row (x ! fid) (basis_mat bps ?N fid) row, row)
          \<and> length row = P \<and> (\<forall>i \<in> set row. i < P_x)"
      by (rule enc_item_ok [OF well_formed_item [OF wf fid]])
  qed
  then obtain g where g: "\<And>fid. fid < ?N \<Longrightarrow>
        enc_item ch_dist bps x fid = Inr (delta_row (x ! fid) (basis_mat bps ?N fid) (g fid), g fid)
        \<and> length (g fid) = P \<and> (\<forall>i \<in> set (g fid). i < P_x)"
    using bchoice [of "{..<?N}" "\<lambda>fid row. enc_item ch_dist bps x fid
            = Inr (delta_row (x ! fid) (basis_mat bps ?N fid) row, row)
          \<and> length row = P \<and> (\<forall>i \<in> set row. i < P_x)"] by auto
  let ?f = "\<lambda>fid. delta_row (x ! fid) (basis_mat bps ?N fid) (g fid)"
  let ?ids = "map g [0..<?N]"
  have "enc_loop ch_dist bps x [0..<?N] (zeros3 ?N Pz Dz, zeros2 ?N Pz)
          = Inr (fold (\<lambda>fid d. d[fid := ?f fid]) [0..<?N] (zeros3 ?N Pz Dz),
                 fold (\<lambda>fid j. j[fid := g fid]) [0..<?N] (zeros2 ?N Pz))"
    by (rule enc_loop_fold) (simp add: g)
  then have "enc_loop ch_dist bps x [0..<?N] (zeros3 ?N Pz Dz, zeros2 ?N Pz)
          = Inr (map ?f [0..<?N], ?ids)"
    by (simp add: fold_update_upt zeros3_def zeros2_def)
  moreover have "map ?f [0..<?N] = map (\<lambda>n. delta_row (x ! n) (basis_mat bps ?N n) (?ids ! n)) [0..<?N]"
    by simp
  moreover have "length ?ids = ?N" by simp
  moreover have "\<forall>n < ?N. length (?ids ! n) = P \<and> (\<forall>i \<in> set (?ids ! n). i < P_x)"
    using g by simp
  ultimately show ?thesis by (intro exI [of _ ?ids]) simp
qed


section \<open>Unbatched input\<close>

text \<open>
  C9. A point cloud of shape \<open>[P_x, D]\<close> handed to \<open>enc_points\<close>, and deltas of shape
  \<open>[P, D]\<close> handed to \<open>decode\<close>, give the very result of the same data shaped as a batch
  of one item, whatever the other arguments are.
\<close>

theorem unbatched_promotion:
  "enc_points self_bps ch_dist (Tensor2 m) feature_type x_features custom_basis
     = enc_points self_bps ch_dist (Tensor3 [m]) feature_type x_features custom_basis
   \<and> decode self_bps (Tensor2 d) custom_basis = decode self_bps (Tensor3 [d]) custom_basis"
  by (simp add: enc_points_def decode_def)

theorem unbatched_promotion_witness:
  "enc_points bps1 nn_chamfer (Tensor2 [[1, 2], [0, 1], [5, 5]]) [''deltas''] None None
     = enc_points bps1 nn_chamfer (Tensor3 [[[1, 2], [0, 1], [5, 5]]]) [''deltas''] None None
   \<and> decode bps1 (Tensor2 [[0, 1], [0, 1]]) None = decode bps1 (Tensor3 [[[0, 1], [0, 1]]]) None"
  using unbatched_promotion [of bps1 nn_chamfer "[[1, 2], [0, 1], [5, 5]]" "[''deltas'']" None None
      "[[0, 1], [0, 1]]"]
  by simp

section \<open>The features entry\<close>

text \<open>
  C2. With \<open>x_features\<close> supplied, the \<open>features\<close> entry of the bundle holds the rows of
  the input \<open>x\<close> at the recorded indices, not those of \<open>x_features\<close>: for the input
  \<open>[[[1, 2]]]\<close> with the side channel \<open>[[[7, 8]]]\<close> the entry is \<open>[[[1, 2]]]\<close>.
\<close>

theorem features_gathers_input:
  "enc_points [[[0, 0]]] nn_chamfer (Tensor3 [[[1, 2]]]) [''features''] (Some [[[7, 8]]]) None
     = Inr [''features'' \<mapsto> Float3 [[[1, 2]]], ''ids'' \<mapsto> Long2 [[0]]]"
  by (simp add: enc_eval)

section \<open>Construction fails\<close>

text \<open>
  C7, as the claim states it, fails: the strategy name \<open>custom\<close> is one of the five
  recognised names, and construction with it and no custom basis raises the
  configuration error.
\<close>

theorem custom_without_basis:
  "bps_torch_init example_samplers ''custom'' 1024 1 3 13 False None
     = Inl (ValueError ''Custom BPS arrangement selected, but no custom_basis provided.'')"
  by (simp add: bps_torch_init_def)

text \<open>
  C7, amended. Construction raises a configuration error exactly when no custom basis is
  given and the strategy name is none of the four sampler names; a custom basis, when
  given, is the basis that is reshaped and stored, whatever the strategy name says.
\<close>

theorem init_configuration_error:
  "((\<exists>m. bps_torch_init S bps_type n_bps_points radius n_dims random_seed randomize custom_basis
          = Inl (ValueError m))
     = (custom_basis = None \<and>
        bps_type \<notin> {''random_uniform'', ''random_nonuniform'', ''grid_cube'', ''grid_sphere''}))
   \<and> bps_torch_init S bps_type n_bps_points radius n_dims random_seed randomize (Some cb)
       = reshape_basis n_dims (elements cb)"
  by (auto simp: bps_torch_init_def reshape_basis_def Let_def split: option.splits)

lemma reshape_basis_example:
  "reshape_basis 2 (elements (Tensor2 [[1, 2], [3, 4]])) = Inr [[[1, 2], [3, 4]]]"
  by code_simp

theorem init_configuration_error_witness:
  "(\<exists>m. bps_torch_init example_samplers ''grid'' 4 1 2 13 False None = Inl (ValueError m))
   \<and> bps_torch_init example_samplers ''grid'' 4 1 2 13 False (Some (Tensor2 [[1, 2], [3, 4]]))
       = Inr [[[1, 2], [3, 4]]]"
  using init_configuration_error [of example_samplers "''grid''" 4 1 2 13 False None
      "Tensor2 [[1, 2], [3, 4]]"] reshape_basis_example
  by simp

section \<open>The keys of the bundle\<close>

lemma enc_points_keys:
  assumes "enc_points self_bps ch_dist x feature_type x_features custom_basis = Inr b"
  shows "dom b = {''ids''}
           \<union> ({''dists'', ''deltas'', ''closest'', ''features''} \<inter> set feature_type)
           \<union> (if ''closest'' \<in> set feature_type then {''closest_ids''} else {})"
proof -
  let ?bps = "case custom_basis of None \<Rightarrow> self_bps | Some cb \<Rightarrow> cb"
  let ?x = "promote x"
  obtain deltas ids where
    "enc_loop ch_dist ?bps ?x [0..<length ?x]
       (zeros3 (length ?x) (size1 ?bps) (size2 ?x), zeros2 (length ?x) (size1 ?bps))
     = Inr (deltas, ids)"
    using assms unfolding enc_points_def Let_def by (simp split: sum.splits prod.splits)
  then show ?thesis
    using assms unfolding enc_points_def Let_def
    apply (simp split: sum.splits)
    apply (cases "''dists'' \<in> set feature_type"; cases "''deltas'' \<in> set feature_type";
           cases "''closest'' \<in> set feature_type"; cases "''features'' \<in> set feature_type")
                   apply (auto split: sum.splits if_splits)
    done
qed

lemma enc_mesh_keys:
  assumes "snd (enc_mesh self_bps point2surface ms feature_type custom_basis) = Inr b"
  shows "dom b = {''dists''}"
  using assms unfolding enc_mesh_def Let_def
  by (auto split: sum.splits option.splits if_splits)

lemma closest_example:
  "enc_points bps1 nn_chamfer (Tensor3 x1) [''closest''] None None
     = Inr [''closest'' \<mapsto> Float3 [[[0, 1], [1, 2]]],
            ''closest_ids'' \<mapsto> Long3 [[[1, 1], [0, 0]]],
            ''ids'' \<mapsto> Long2 [[1, 0]]]"
  by (simp add: enc_eval)

lemma mesh_example:
  "enc_mesh bps1 plane_surface [()] [''dists''] None
     = ([], Inr [''dists'' \<mapsto> Float2 [[0, 1000]]])"
  by (simp add: mesh_eval)

text \<open>
  C4, as the claim states it, fails twice: the point-cloud bundle for the request
  \<open>closest\<close> holds the key \<open>closest_ids\<close>, which was not requested, and the mesh bundle
  holds no key \<open>ids\<close>.
\<close>

theorem bundle_keys_counterexample:
  "enc_points bps1 nn_chamfer (Tensor3 x1) [''closest''] None None
     = Inr [''closest'' \<mapsto> Float3 [[[0, 1], [1, 2]]],
            ''closest_ids'' \<mapsto> Long3 [[[1, 1], [0, 0]]],
            ''ids'' \<mapsto> Long2 [[1, 0]]]
   \<and> ''closest_ids'' \<notin> set [''closest'']
   \<and> enc_mesh bps1 plane_surface [()] [''dists''] None
     = ([], Inr [''dists'' \<mapsto> Float2 [[0, 1000]]])
   \<and> ''ids'' \<notin> dom [''dists'' \<mapsto> Float2 [[0, 1000]]]"
  using closest_example mesh_example by simp

text \<open>
  C4, amended. The bundle of a successful \<open>enc_points\<close> call holds \<open>ids\<close>, each of
  \<open>dists\<close>, \<open>deltas\<close>, \<open>closest\<close> and \<open>features\<close> exactly when it was requested,
  \<open>closest_ids\<close> exactly when \<open>closest\<close> was requested, and nothing else; the bundle of a
  successful \<open>enc_mesh\<close> call holds the key \<open>dists\<close> and nothing else.
\<close>

theorem bundle_keys:
  "(enc_points self_bps ch_dist x feature_type x_features custom_basis = Inr b \<longrightarrow>
      dom b = {''ids''}
           \<union> ({''dists'', ''deltas'', ''closest'', ''features''} \<inter> set feature_type)
           \<union> (if ''closest'' \<in> set feature_type then {''closest_ids''} else {}))
   \<and> (snd (enc_mesh self_bps point2surface ms feature_type custom_basis) = Inr b' \<longrightarrow>
        dom b' = {''dists''})"
proof (intro conjI impI)
  assume "enc_points self_bps ch_dist x feature_type x_features custom_basis = Inr b"
  then show "dom b = {''ids''}
           \<union> ({''dists'', ''deltas'', ''closest'', ''features''} \<inter> set feature_type)
           \<union> (if ''closest'' \<in> set feature_type then {''closest_ids''} else {})"
    by (rule enc_points_keys)
next
  assume "snd (enc_mesh self_bps point2surface ms feature_type custom_basis) = Inr b'"
  then show "dom b' = {''dists''}" by (rule enc_mesh_keys)
qed

theorem bundle_keys_witness:
  "enc_points bps1 nn_chamfer (Tensor3 x1) [''closest''] None None
     = Inr [''closest'' \<mapsto> Float3 [[[0, 1], [1, 2]]],
            ''closest_ids'' \<mapsto> Long3 [[[1, 1], [0, 0]]],
            ''ids'' \<mapsto> Long2 [[1, 0]]]
   \<and> dom [''closest'' \<mapsto> Float3 [[[0, 1], [1, 2]]],
           ''closest_ids'' \<mapsto> Long3 [[[1, 1], [0, 0]]],
           ''ids'' \<mapsto> Long2 [[1, 0]]]
     = {''ids'', ''closest'', ''closest_ids''}
   \<and> snd (enc_mesh bps1 plane_surface [()] [''closest''] None)
     = Inr [''dists'' \<mapsto> Float2 [[0, 1000]]]
   \<and> dom [''dists'' \<mapsto> Float2 [[0, 1000::real]]] = {''dists''}"
proof -
  have m: "snd (enc_mesh bps1 plane_surface [()] [''closest''] None)
             = Inr [''dists'' \<mapsto> Float2 [[0, 1000]]]"
    by (simp add: mesh_eval)
  show ?thesis
    using bundle_keys [of bps1 nn_chamfer "Tensor3 x1" "[''closest'']" None None
        "[''closest'' \<mapsto> Float3 [[[0, 1], [1, 2]]],
          ''closest_ids'' \<mapsto> Long3 [[[1, 1], [0, 0]]],
          ''ids'' \<mapsto> Long2 [[1, 0]]]"
        plane_surface "[()]" "[''dists'' \<mapsto> Float2 [[0, 1000]]]"]
      closest_example m
    by auto
qed

section \<open>Feature names in the mesh encoder\<close>

text \<open>
  C6, as the claim states it, fails: with the request \<open>dists\<close> and \<open>deltas\<close> the name
  \<open>deltas\<close> is ignored and nothing is printed.
\<close>

theorem mesh_silent_counterexample:
  "enc_mesh bps1 plane_surface [()] [''dists'', ''deltas''] None
     = ([], Inr [''dists'' \<mapsto> Float2 [[0, 1000]]])"
  by (simp add: mesh_eval)

text \<open>
  C6, amended. The result of \<open>enc_mesh\<close>, bundle or error, is the one of the request
  \<open>dists\<close> whatever \<open>feature_type\<close> is; a returned bundle holds the key \<open>dists\<close>
  only; and the warning is printed exactly when \<open>dists\<close> is not among the requested
  names (and the call has reached line 88: there is a mesh and the surface routine has
  answered).
\<close>

theorem mesh_feature_type:
  "snd (enc_mesh self_bps point2surface ms feature_type custom_basis)
     = snd (enc_mesh self_bps point2surface ms [''dists''] custom_basis)
   \<and> (snd (enc_mesh self_bps point2surface ms feature_type custom_basis) = Inr b \<longrightarrow>
        dom b = {''dists''})
   \<and> fst (enc_mesh self_bps point2surface ms feature_type custom_basis)
     = (if ''dists'' \<in> set feature_type \<or> ms = [] \<or>
           point2surface ms
             (scaled_basis (case custom_basis of None \<Rightarrow> self_bps | Some cb \<Rightarrow> cb) (length ms))
           = None
        then [] else [''bps_torch currently only supports dists!''])"
proof (intro conjI impI)
  show "snd (enc_mesh self_bps point2surface ms feature_type custom_basis)
          = snd (enc_mesh self_bps point2surface ms [''dists''] custom_basis)"
    unfolding enc_mesh_def Let_def by (simp split: sum.splits option.splits)
next
  assume "snd (enc_mesh self_bps point2surface ms feature_type custom_basis) = Inr b"
  then show "dom b = {''dists''}" by (rule enc_mesh_keys)
next
  show "fst (enc_mesh self_bps point2surface ms feature_type custom_basis)
     = (if ''dists'' \<in> set feature_type \<or> ms = [] \<or>
           point2surface ms
             (scaled_basis (case custom_basis of None \<Rightarrow> self_bps | Some cb \<Rightarrow> cb) (length ms))
           = None
        then [] else [''bps_torch currently only supports dists!''])"
    unfolding enc_mesh_def Let_def by (simp split: sum.splits option.splits)
qed

theorem mesh_feature_type_witness:
  "enc_mesh bps1 plane_surface [()] [''deltas''] None
     = ([''bps_torch currently only supports dists!''], Inr [''dists'' \<mapsto> Float2 [[0, 1000]]])
   \<and> snd (enc_mesh bps1 plane_surface [()] [''dists''] None)
     = Inr [''dists'' \<mapsto> Float2 [[0, 1000]]]
   \<and> dom [''dists'' \<mapsto> Float2 [[0, 1000::real]]] = {''dists''}"
proof -
  have m: "enc_mesh bps1 plane_surface [()] [''deltas''] None
     = ([''bps_torch currently only supports dists!''], Inr [''dists'' \<mapsto> Float2 [[0, 1000]]])"
    by (simp add: mesh_eval)
  show ?thesis
    using mesh_feature_type [of bps1 plane_surface "[()]" "[''deltas'']" None
        "[''dists'' \<mapsto> Float2 [[0, 1000]]]"] m
    by auto
qed

section \<open>No recognised feature name\<close>


lemma mapE_ok: "(\<And>x. x \<in> set xs \<Longrightarrow> \<exists>y. f x = Inr y) \<Longrightarrow> \<exists>ys. mapE f xs = Inr ys"
proof (induction xs)
  case Nil
  then show ?case by simp
next
  case (Cons a xs)
  then obtain y ys where "f a = Inr y" "mapE f xs = Inr ys" by (metis list.set_intros)
  then show ?case by simp
qed

lemma no_feature_no_bundle:
  assumes "''dists'' \<notin> set ft" "''deltas'' \<notin> set ft" "''closest'' \<notin> set ft" "''features'' \<notin> set ft"
  shows "\<exists>e. enc_points self_bps ch_dist x ft xf cb = Inl e"
  using assms unfolding enc_points_def Let_def
  by (simp split: sum.splits prod.splits)

lemma no_feature_error:
  assumes "''dists'' \<notin> set ft" "''deltas'' \<notin> set ft" "''closest'' \<notin> set ft" "''features'' \<notin> set ft"
    and wf: "well_formed ch_dist (case cb of None \<Rightarrow> self_bps | Some c \<Rightarrow> c) (promote x) P P_x D"
  shows "enc_points self_bps ch_dist x ft xf cb = Inl (ValueError invalid_cell_type)"
proof -
  let ?bps = "case cb of None \<Rightarrow> self_bps | Some c \<Rightarrow> c"
  let ?x = "promote x"
  obtain ids where "enc_loop ch_dist ?bps ?x [0..<length ?x]
       (zeros3 (length ?x) (size1 ?bps) (size2 ?x), zeros2 (length ?x) (size1 ?bps))
     = Inr (map (\<lambda>n. delta_row (?x ! n) (basis_mat ?bps (length ?x) n) (ids ! n)) [0..<length ?x], ids)"
    using enc_loop_ok [OF wf] by blast
  then show ?thesis using assms(1-4) unfolding enc_points_def Let_def by simp
qed

text \<open>
  C10. When \<open>feature_type\<close> holds none of \<open>dists\<close>, \<open>deltas\<close>, \<open>closest\<close> and
  \<open>features\<close> (the request \<open>ids\<close> alone and the empty request among them), \<open>enc_points\<close>
  never returns a bundle; and on a well-formed call, where the loop over the batch
  completes, what it raises is the configuration error of line 145.
\<close>

theorem no_recognized_feature:
  assumes "''dists'' \<notin> set ft" "''deltas'' \<notin> set ft" "''closest'' \<notin> set ft" "''features'' \<notin> set ft"
  shows "(\<exists>e. enc_points self_bps ch_dist x ft xf cb = Inl e)
       \<and> (well_formed ch_dist (case cb of None \<Rightarrow> self_bps | Some c \<Rightarrow> c) (promote x) P P_x D \<longrightarrow>
            enc_points self_bps ch_dist x ft xf cb = Inl (ValueError invalid_cell_type))"
  using no_feature_no_bundle [OF assms] no_feature_error [OF assms] by blast

lemma wf_example: "well_formed nn_chamfer bps1 x1 2 3 2"
  by (simp add: well_formed_def has_shape_def answers_def basis_item_def nn_chamfer_def
      nearest_def sqdist_def size1_def bps1_def x1_def)

theorem no_recognized_feature_witness:
  "enc_points bps1 nn_chamfer (Tensor3 x1) [''ids''] None None = Inl (ValueError invalid_cell_type)
   \<and> enc_points bps1 nn_chamfer (Tensor3 x1) [] None None = Inl (ValueError invalid_cell_type)"
  using no_recognized_feature [of "[''ids'']" bps1 nn_chamfer "Tensor3 x1" None None 2 3 2]
    no_recognized_feature [of "[]" bps1 nn_chamfer "Tensor3 x1" None None 2 3 2] wf_example
  by simp


section \<open>Features without the side channel\<close>


lemma size2_shape:
  assumes "has_shape x N P_x D" "x \<noteq> []" "0 < P_x"
  shows "size2 x = D"
proof -
  obtain c cs where x: "x = c # cs" using assms(2) by (cases x) auto
  then have c: "length c = P_x" "\<forall>p \<in> set c. length p = D"
    using assms(1) by (auto simp: has_shape_def list_all_iff)
  then obtain p ps where "c = p # ps" using assms(3) by (cases c) auto
  then show ?thesis using c x by (simp add: size2_def size1_def)
qed

lemma gather_row_ok:
  assumes "i < length xn" "F \<le> length (xn ! i)"
  shows "\<exists>r. gather_row xn (replicate F i) = Inr r"
  unfolding gather_row_def
proof (rule mapE_ok)
  fix z assume "z \<in> set (zip [0..<length (replicate F i)] (replicate F i))"
  then obtain d where "z = (d, i)" "d < F" by (auto simp: set_zip)
  then show "\<exists>y. (case z of (d, i) \<Rightarrow> if i < length xn \<and> d < length (xn ! i) then Inr (xn ! i ! d)
                     else Inl RuntimeError) = Inr y"
    using assms by simp
qed

lemma gather_closest_ok:
  assumes shx: "has_shape x (length x) P_x D"
    and len: "length ids = length x"
    and rng: "\<forall>n < length x. \<forall>i \<in> set (ids ! n). i < P_x"
  shows "\<exists>c. gather (size2 x) x (size2 x) (expand_ids (size2 x) ids) = Inr c"
proof -
  let ?D = "size2 x"
  have "\<exists>c. mapE (\<lambda>(xn, idxn). mapE (gather_row xn) idxn) (zip x (expand_ids ?D ids)) = Inr c"
  proof (rule mapE_ok)
    fix z assume "z \<in> set (zip x (expand_ids ?D ids))"
    then obtain n where n: "n < length x" and z: "z = (x ! n, map (replicate ?D) (ids ! n))"
      using len by (auto simp: set_zip expand_ids_def)
    have xn: "mat_shape (x ! n) P_x D" using shx n by (rule has_shape_nth)
    have "\<exists>r. mapE (gather_row (x ! n)) (map (replicate ?D) (ids ! n)) = Inr r"
    proof (rule mapE_ok)
      fix row assume "row \<in> set (map (replicate ?D) (ids ! n))"
      then obtain i where i: "i \<in> set (ids ! n)" and row: "row = replicate ?D i" by auto
      then have iP: "i < P_x" using rng n by blast
      then have "size2 x = D" using size2_shape [OF shx] n by (cases x) auto
      moreover have "i < length (x ! n)" "length (x ! n ! i) = D"
        using xn iP by (auto simp: mat_shape_def list_all_iff)
      ultimately show "\<exists>y. gather_row (x ! n) row = Inr y"
        using gather_row_ok [of i "x ! n" ?D] row by simp
    qed
    then show "\<exists>y. (case z of (xn, idxn) \<Rightarrow> mapE (gather_row xn) idxn) = Inr y"
      using z by simp
  qed
  then show ?thesis using len by (simp add: gather_def expand_ids_def)
qed

lemma features_of_error:
  "features_of D x ids xf = Inl e \<Longrightarrow> e = ValueError ''No x_features parameter is provided!''"
  by (auto simp: features_of_def split: sum.splits)

lemma features_of_None:
  "features_of D x ids None = Inl (ValueError ''No x_features parameter is provided!'')"
  by (simp add: features_of_def)

lemma features_errors:
  assumes ft: "''features'' \<in> set ft"
    and wf: "well_formed ch_dist (case cb of None \<Rightarrow> self_bps | Some c \<Rightarrow> c) (promote x) P P_x D"
  shows "(xf = None \<longrightarrow> enc_points self_bps ch_dist x ft xf cb
            = Inl (ValueError ''No x_features parameter is provided!''))
       \<and> (\<forall>e. enc_points self_bps ch_dist x ft xf cb = Inl e \<longrightarrow>
            e = ValueError ''No x_features parameter is provided!'')"
proof -
  let ?bps = "case cb of None \<Rightarrow> self_bps | Some c \<Rightarrow> c"
  let ?x = "promote x"
  obtain ids where loop: "enc_loop ch_dist ?bps ?x [0..<length ?x]
       (zeros3 (length ?x) (size1 ?bps) (size2 ?x), zeros2 (length ?x) (size1 ?bps))
     = Inr (map (\<lambda>n. delta_row (?x ! n) (basis_mat ?bps (length ?x) n) (ids ! n)) [0..<length ?x], ids)"
    and len: "length ids = length ?x"
    and rng: "\<forall>n < length ?x. length (ids ! n) = P \<and> (\<forall>i \<in> set (ids ! n). i < P_x)"
    using enc_loop_ok [OF wf] by blast
  have shx: "has_shape ?x (length ?x) P_x D" using wf by (simp add: well_formed_def)
  obtain c where c: "gather (size2 ?x) ?x (size2 ?x) (expand_ids (size2 ?x) ids) = Inr c"
    using gather_closest_ok [OF shx len] rng by blast
  show ?thesis
  proof (cases "features_of (size2 ?x) ?x ids xf")
    case (Inl e)
    then have "e = ValueError ''No x_features parameter is provided!''"
      by (rule features_of_error)
    then have "enc_points self_bps ch_dist x ft xf cb
                 = Inl (ValueError ''No x_features parameter is provided!'')"
      using Inl ft loop c unfolding enc_points_def Let_def by simp
    then show ?thesis by auto
  next
    case (Inr f)
    then have "xf \<noteq> None" by (cases xf) (simp_all add: features_of_None)
    moreover have "\<exists>b. enc_points self_bps ch_dist x ft xf cb = Inr b"
      using Inr ft loop c unfolding enc_points_def Let_def by simp
    ultimately show ?thesis by auto
  qed
qed


text \<open>
  C5. On a well-formed call that requests \<open>features\<close>: without \<open>x_features\<close> the call
  raises the configuration error of line 143, and whatever fails inside the feature gather
  is raised as that same error, so it is the only error the call can raise; it is not the
  failure of the nearest-neighbour routine.
\<close>

theorem features_without_x_features:
  assumes "''features'' \<in> set ft"
    and "well_formed ch_dist (case cb of None \<Rightarrow> self_bps | Some c \<Rightarrow> c) (promote x) P P_x D"
  shows "(xf = None \<longrightarrow> enc_points self_bps ch_dist x ft xf cb
            = Inl (ValueError ''No x_features parameter is provided!''))
       \<and> (\<forall>e. enc_points self_bps ch_dist x ft xf cb = Inl e \<longrightarrow>
            e = ValueError ''No x_features parameter is provided!'')
       \<and> ValueError ''No x_features parameter is provided!'' \<noteq> OracleFailure"
  using features_errors [OF assms] by simp

theorem features_without_x_features_witness:
  "enc_points bps1 nn_chamfer (Tensor3 x1) [''features''] None None
     = Inl (ValueError ''No x_features parameter is provided!'')
   \<and> enc_points bps1 nn_chamfer (Tensor3 x1) [''features''] (Some [[[7, 8, 9]]]) None
     = Inl (ValueError ''No x_features parameter is provided!'')"
proof -
  have a: "enc_points bps1 nn_chamfer (Tensor3 x1) [''features''] (Some [[[7, 8, 9]]]) None
     = Inl (ValueError ''No x_features parameter is provided!'')"
    by (simp add: enc_eval)
  have m: "''features'' \<in> set [''features'']" by simp
  have wf: "well_formed nn_chamfer (case None of None \<Rightarrow> bps1 | Some c \<Rightarrow> c)
              (promote (Tensor3 x1)) 2 3 2"
    using wf_example by simp
  from features_without_x_features [where xf = None, OF m wf]
  have b: "enc_points bps1 nn_chamfer (Tensor3 x1) [''features''] None None
     = Inl (ValueError ''No x_features parameter is provided!'')"
    by blast
  show ?thesis by (rule conjI [OF b a])
qed
section \<open>Encoding deltas and decoding them\<close>


lemma delta_row_shape:
  assumes "mat_shape B P D" "mat_shape Xm P_x D" "length row = P" "\<forall>i \<in> set row. i < P_x"
  shows "mat_shape (delta_row Xm B row) P D"
proof -
  have "length (delta_row Xm B row) = P"
    using assms by (simp add: delta_row_def mat_shape_def)
  moreover have "length r = D" if r: "r \<in> set (delta_row Xm B row)" for r
  proof -
    obtain i q where iq: "(i, q) \<in> set (zip row B)" and rr: "r = sub1 (Xm ! i) q"
      using r by (auto simp: delta_row_def)
    from iq have "i \<in> set row" "q \<in> set B" by (auto dest: set_zip_leftD set_zip_rightD)
    then have "length (Xm ! i) = D" "length q = D"
      using assms by (auto simp: mat_shape_def list_all_iff)
    then show ?thesis by (simp add: rr sub1_def)
  qed
  ultimately show ?thesis by (simp add: mat_shape_def list_all_iff)
qed

lemma delta_row_nth:
  assumes "length B = P" "length row = P" "p < P"
  shows "delta_row Xm B row ! p = sub1 (Xm ! (row ! p)) (B ! p)"
  using assms by (simp add: delta_row_def)

lemma expand1_single: "expand1 n [a] = Inr (replicate n a)"
  by (cases "n = 1") (auto simp: expand1_def)

lemma size2_mat:
  assumes "mat_shape c P D" "0 < P"
  shows "size2 (c # cs) = D"
proof -
  obtain p ps where "c = p # ps" using assms by (cases c) (auto simp: mat_shape_def)
  then show ?thesis using assms by (simp add: size2_def size1_def mat_shape_def)
qed

lemma decode_deltas:
  assumes B: "mat_shape B P D"
    and ds: "length deltas = N" "\<And>n. n < N \<Longrightarrow> mat_shape (deltas ! n) P D"
  shows "\<exists>r. decode [B] (Tensor3 deltas) None = Inr r \<and> length r = N
            \<and> (\<forall>n < N. \<forall>p < P. r ! n ! p = add1 (B ! p) (deltas ! n ! p))"
proof -
  let ?D = "size2 deltas"
  have lenB: "length B = P" using B by (simp add: mat_shape_def)
  have e1: "expand1 N [B] = Inr (replicate N B)" by (rule expand1_single)
  have inner: "mapE (expand1 ?D) B = Inr B" if N0: "0 < N"
  proof (rule mapE_id)
    fix q assume q: "q \<in> set B"
    then have lq: "length q = D" using B by (simp add: mat_shape_def list_all_iff)
    have "0 < P" using q lenB by (cases B) auto
    moreover obtain c cs where "deltas = c # cs" using N0 ds(1) by (cases deltas) auto
    moreover from this have "mat_shape c P D" using ds(2) [of 0] N0 by simp
    ultimately have "?D = D" using size2_mat by blast
    then show "expand1 ?D q = Inr q" using lq by (simp add: expand1_same)
  qed
  have e2: "mapE (\<lambda>c. case expand1 (size1 [B]) c of Inl e \<Rightarrow> Inl e
                        | Inr c' \<Rightarrow> mapE (expand1 ?D) c') (replicate N B) = Inr (replicate N B)"
  proof (rule mapE_id)
    fix c assume "c \<in> set (replicate N B)"
    then have "c = B" "0 < N" by auto
    then show "(case expand1 (size1 [B]) c of Inl e \<Rightarrow> Inl e
                 | Inr c' \<Rightarrow> mapE (expand1 ?D) c') = Inr c"
      using inner by (simp add: size1_def expand1_same)
  qed
  let ?g = "\<lambda>c dn. map (\<lambda>(p, q). add1 p q) (zip c dn)"
  have e3: "broadcast (broadcast (broadcast (\<lambda>a b. Inr (a + b)))) (replicate N B) deltas
              = Inr (map (\<lambda>(c, dn). ?g c dn) (zip (replicate N B) deltas))"
  proof (rule broadcast_same)
    show "length (replicate N B) = length deltas" using ds(1) by simp
  next
    fix i assume "i < length (replicate N B)"
    then have i: "i < N" by simp
    then have "mat_shape (deltas ! i) P D" by (rule ds(2))
    then show "broadcast (broadcast (\<lambda>a b. Inr (a + b))) (replicate N B ! i) (deltas ! i)
                 = Inr (?g (replicate N B ! i) (deltas ! i))"
      using broadcast_add2 [OF B] i by simp
  qed
  let ?r = "map (\<lambda>(c, dn). ?g c dn) (zip (replicate N B) deltas)"
  have dec: "decode [B] (Tensor3 deltas) None = Inr ?r"
    using e1 e2 e3 ds(1) by (simp add: decode_def Let_def add3_def)
  have "?r ! n ! p = add1 (B ! p) (deltas ! n ! p)" if "n < N" "p < P" for n p
  proof -
    have "length (deltas ! n) = P" using ds(2) [OF that(1)] by (simp add: mat_shape_def)
    then show ?thesis using that ds(1) lenB by simp
  qed
  then show ?thesis using dec ds(1) by auto
qed


lemma enc_points_deltas:
  assumes loop: "enc_loop ch_dist self_bps x [0..<length x]
       (zeros3 (length x) (size1 self_bps) (size2 x), zeros2 (length x) (size1 self_bps))
     = Inr (deltas, ids)"
    and ft: "''deltas'' \<in> set ft"
    and b: "enc_points self_bps ch_dist (Tensor3 x) ft xf None = Inr b"
  shows "b ''deltas'' = Some (Float3 deltas) \<and> b ''ids'' = Some (Long2 ids)"
  using b ft loop unfolding enc_points_def Let_def
  apply (simp split: sum.splits)
  apply (cases "''dists'' \<in> set ft"; cases "''closest'' \<in> set ft"; cases "''features'' \<in> set ft")
         apply (auto split: sum.splits if_splits)
  done

lemma enc_points_returns:
  assumes loop: "enc_loop ch_dist self_bps x [0..<length x]
       (zeros3 (length x) (size1 self_bps) (size2 x), zeros2 (length x) (size1 self_bps))
     = Inr (deltas, ids)"
    and ft: "''deltas'' \<in> set ft" "''features'' \<notin> set ft"
    and g: "gather (size2 x) x (size2 x) (expand_ids (size2 x) ids) = Inr c"
  shows "\<exists>b. enc_points self_bps ch_dist (Tensor3 x) ft xf None = Inr b"
  using ft loop g unfolding enc_points_def Let_def by simp

text \<open>
  C1. Let the call be well formed, with the input of shape \<open>[N, P_x, D]\<close> and the stored
  basis of shape \<open>[1, P, D]\<close>, no custom basis, and let \<open>deltas\<close> be requested. Then the
  call returns a bundle unless \<open>features\<close> is requested too, and whenever it returns one,
  decoding its deltas with the same basis gives, for every item \<open>n\<close> and every basis
  point \<open>p\<close>, the input point \<open>x[n, ids[n, p]]\<close>. Over the reals the two are equal.
\<close>

theorem roundtrip:
  assumes wf: "well_formed ch_dist self_bps x P P_x D"
    and b1: "has_shape self_bps 1 P D"
    and ft: "''deltas'' \<in> set ft"
  shows "(''features'' \<notin> set ft \<longrightarrow>
            (\<exists>b. enc_points self_bps ch_dist (Tensor3 x) ft xf None = Inr b))
       \<and> (\<forall>b. enc_points self_bps ch_dist (Tensor3 x) ft xf None = Inr b \<longrightarrow>
            (\<exists>deltas ids r. b ''deltas'' = Some (Float3 deltas) \<and> b ''ids'' = Some (Long2 ids)
               \<and> decode self_bps (Tensor3 deltas) None = Inr r
               \<and> (\<forall>n < length x. \<forall>p < P. r ! n ! p = x ! n ! (ids ! n ! p))))"
proof -
  let ?N = "length x"
  let ?Pz = "size1 self_bps" and ?Dz = "size2 x"
  obtain ids where loop: "enc_loop ch_dist self_bps x [0..<?N] (zeros3 ?N ?Pz ?Dz, zeros2 ?N ?Pz)
       = Inr (map (\<lambda>n. delta_row (x ! n) (basis_mat self_bps ?N n) (ids ! n)) [0..<?N], ids)"
    and len: "length ids = ?N"
    and rng: "\<forall>n < ?N. length (ids ! n) = P \<and> (\<forall>i \<in> set (ids ! n). i < P_x)"
    using enc_loop_ok [OF wf] by blast
  let ?deltas = "map (\<lambda>n. delta_row (x ! n) (basis_mat self_bps ?N n) (ids ! n)) [0..<?N]"
  obtain B where bps: "self_bps = [B]" and B: "mat_shape B P D"
    using b1 by (cases self_bps) (auto simp: has_shape_def mat_shape_def)
  have lenB: "length B = P" using B by (simp add: mat_shape_def)
  have bm: "basis_mat self_bps ?N n = B" if n: "n < ?N" for n
  proof (cases "?N = 1")
    case True
    then have "n = 0" using n by simp
    then show ?thesis by (simp add: basis_mat_def basis_item_def bps)
  next
    case False
    then show ?thesis by (simp add: basis_mat_def basis_item_def bps)
  qed
  have shx: "has_shape x ?N P_x D" using wf by (simp add: well_formed_def)
  have xs: "mat_shape (x ! n) P_x D" if "n < ?N" for n
    using shx that by (rule has_shape_nth)
  have dn: "?deltas ! n = delta_row (x ! n) B (ids ! n)" if "n < ?N" for n
    using that bm by simp
  have dsh: "mat_shape (?deltas ! n) P D" if n: "n < ?N" for n
    using delta_row_shape [OF B xs [OF n]] rng n dn [OF n] by simp
  obtain r where dec: "decode [B] (Tensor3 ?deltas) None = Inr r"
    and r: "\<forall>n < ?N. \<forall>p < P. r ! n ! p = add1 (B ! p) (?deltas ! n ! p)"
    using decode_deltas [OF B, of ?deltas ?N] dsh by auto
  have val: "r ! n ! p = x ! n ! (ids ! n ! p)" if n: "n < ?N" and p: "p < P" for n p
  proof -
    have lr: "length (ids ! n) = P" and ir: "ids ! n ! p < P_x"
      using rng n p by auto
    have "length (x ! n ! (ids ! n ! p)) = D" "length (B ! p) = D"
      using xs [OF n] ir B p by (auto simp: mat_shape_def list_all_iff)
    then have "add1 (B ! p) (sub1 (x ! n ! (ids ! n ! p)) (B ! p)) = x ! n ! (ids ! n ! p)"
      by (simp add: add1_sub1)
    moreover have "?deltas ! n ! p = sub1 (x ! n ! (ids ! n ! p)) (B ! p)"
      using dn [OF n] delta_row_nth [OF lenB lr p] by simp
    ultimately show ?thesis using r n p by simp
  qed
  obtain c where c: "gather ?Dz x ?Dz (expand_ids ?Dz ids) = Inr c"
    using gather_closest_ok [OF shx len] rng by blast
  have ret: "''features'' \<notin> set ft \<longrightarrow>
               (\<exists>b. enc_points self_bps ch_dist (Tensor3 x) ft xf None = Inr b)"
    using enc_points_returns [OF loop ft _ c] by blast
  have "\<exists>deltas ids r. b ''deltas'' = Some (Float3 deltas) \<and> b ''ids'' = Some (Long2 ids)
               \<and> decode self_bps (Tensor3 deltas) None = Inr r
               \<and> (\<forall>n < length x. \<forall>p < P. r ! n ! p = x ! n ! (ids ! n ! p))"
    if b: "enc_points self_bps ch_dist (Tensor3 x) ft xf None = Inr b" for b
  proof -
    have "b ''deltas'' = Some (Float3 ?deltas) \<and> b ''ids'' = Some (Long2 ids)"
      using enc_points_deltas [OF loop ft b] .
    then show ?thesis using dec val bps by blast
  qed
  then show ?thesis using ret by blast
qed


lemma shape_example: "has_shape bps1 1 2 2"
  by (simp add: has_shape_def bps1_def)

theorem roundtrip_witness:
  "well_formed nn_chamfer bps1 x1 2 3 2 \<and> has_shape bps1 1 2 2
   \<and> (\<exists>b deltas ids r.
         enc_points bps1 nn_chamfer (Tensor3 x1) [''deltas''] None None = Inr b
       \<and> b ''deltas'' = Some (Float3 deltas) \<and> b ''ids'' = Some (Long2 ids)
       \<and> decode bps1 (Tensor3 deltas) None = Inr r
       \<and> r ! 0 ! 0 = x1 ! 0 ! (ids ! 0 ! 0) \<and> r ! 0 ! 1 = x1 ! 0 ! (ids ! 0 ! 1))"
proof -
  have m: "''deltas'' \<in> set [''deltas'']" by simp
  note t = roundtrip [OF wf_example shape_example m, where xf = None]
  have nf: "''features'' \<notin> set [''deltas'']" by simp
  from t nf obtain b where b: "enc_points bps1 nn_chamfer (Tensor3 x1) [''deltas''] None None = Inr b"
    by blast
  with t obtain deltas ids r where d: "b ''deltas'' = Some (Float3 deltas)" "b ''ids'' = Some (Long2 ids)"
      "decode bps1 (Tensor3 deltas) None = Inr r"
      "\<forall>n < length x1. \<forall>p < 2. r ! n ! p = x1 ! n ! (ids ! n ! p)"
    by blast
  have "length x1 = 1" by (simp add: x1_def)
  then have "r ! 0 ! 0 = x1 ! 0 ! (ids ! 0 ! 0)" "r ! 0 ! 1 = x1 ! 0 ! (ids ! 0 ! 1)"
    using d(4) by simp_all
  then show ?thesis using wf_example shape_example b d by blast
qed


section \<open>A basis batch that does not fit\<close>


lemma broadcast_Inl:
  assumes "broadcast f xs ys = Inl e" and "\<And>a b e'. f a b = Inl e' \<Longrightarrow> e' = RuntimeError"
  shows "e = RuntimeError"
proof -
  consider (eq) "length xs = length ys"
    | (l) "length xs \<noteq> length ys" "length xs = 1"
    | (r) "length xs \<noteq> length ys" "length xs \<noteq> 1" "length ys = 1"
    | (n) "length xs \<noteq> length ys" "length xs \<noteq> 1" "length ys \<noteq> 1"
    by blast
  then show ?thesis
  proof cases
    case eq
    then have "mapE (\<lambda>(x, y). f x y) (zip xs ys) = Inl e" using assms(1) by (simp add: broadcast_def)
    then obtain z where "(case z of (x, y) \<Rightarrow> f x y) = Inl e" using mapE_Inl by blast
    then show ?thesis using assms(2) by (cases z) auto
  next
    case l
    then have "mapE (\<lambda>y. f (hd xs) y) ys = Inl e" using assms(1) by (simp add: broadcast_def)
    then show ?thesis using mapE_Inl assms(2) by blast
  next
    case r
    then have "mapE (\<lambda>x. f x (hd ys)) xs = Inl e" using assms(1) by (simp add: broadcast_def)
    then show ?thesis using mapE_Inl assms(2) by blast
  next
    case n
    then show ?thesis using assms(1) by (simp add: broadcast_def)
  qed
qed

lemma sub3_Inl: "sub3 A B = Inl e \<Longrightarrow> e = RuntimeError"
  unfolding sub3_def
  by (erule broadcast_Inl, erule broadcast_Inl, erule broadcast_Inl) simp

lemma sub3_length:
  assumes "sub3 A B = Inr V" "length A = length B"
  shows "length V = length B"
  using assms mapE_length [of _ "zip A B" V] by (simp add: sub3_def broadcast_def)

lemma index_points_Inl: "index_points X idx = Inl e \<Longrightarrow> e = IndexError"
proof -
  assume "index_points X idx = Inl e"
  then obtain row where "mapE (\<lambda>i. if i < length X then Inr (X ! i) else Inl IndexError) row = Inl e"
    unfolding index_points_def using mapE_Inl by blast
  then obtain i where "(if i < length X then Inr (X ! i) else Inl IndexError) = Inl e"
    using mapE_Inl by blast
  then show ?thesis by (auto split: if_splits)
qed

lemma index_points_length: "index_points X idx = Inr Xi \<Longrightarrow> length Xi = length idx"
  unfolding index_points_def by (rule mapE_length)

lemma enc_item_mismatch:
  assumes nb: "length bps \<noteq> length x" "length bps \<noteq> 1"
    and rows: "answers_rows ch_dist bps [x ! fid]"
  shows "enc_item ch_dist bps x fid \<in> {Inl OracleFailure, Inl IndexError, Inl RuntimeError}"
proof (cases "ch_dist bps [x ! fid]")
  case None
  then show ?thesis using nb by (simp add: enc_item_def basis_item_def)
next
  case (Some res)
  then obtain b2x x2b idx x2b_idx where res: "ch_dist bps [x ! fid] = Some (b2x, x2b, idx, x2b_idx)"
    by (cases res) auto
  then have li: "length idx = length bps" using rows by (simp add: answers_rows_def)
  show ?thesis
  proof (cases "index_points (x ! fid) idx")
    case (Inl e)
    then have "e = IndexError" by (rule index_points_Inl)
    then show ?thesis using Inl res nb by (simp add: enc_item_def basis_item_def)
  next
    case (Inr Xi)
    then have lx: "length Xi = length bps" using index_points_length li by simp
    show ?thesis
    proof (cases "sub3 Xi bps")
      case (Inl e)
      then have "e = RuntimeError" by (rule sub3_Inl)
      then show ?thesis using Inl Inr res nb by (simp add: enc_item_def basis_item_def)
    next
      case V: (Inr V)
      then have "length V \<noteq> 1" using sub3_length [OF V lx] nb by simp
      then show ?thesis using V Inr res nb
        by (simp add: enc_item_def basis_item_def row_of_value_def)
    qed
  qed
qed

lemma enc_loop_first:
  assumes "enc_item ch_dist bps x fid = Inl e"
  shows "enc_loop ch_dist bps x (fid # fids) st = Inl e"
  using assms by (cases st) simp

text \<open>
  C3, amended. When the input holds at least one item and the batch dimension of the
  basis is neither \<open>N\<close> nor 1, the whole basis is handed to the routine for the first
  item; if the routine returns one row of indices per basis item, the call fails there,
  with the failure of the routine, an index error, or the shape error of the assignment
  \<^verbatim>\<open>deltas[fid] = ...\<close>, and so never with a configuration error.
\<close>

theorem basis_batch_mismatch:
  assumes nb: "length (case cb of None \<Rightarrow> self_bps | Some c \<Rightarrow> c) \<noteq> length (promote x)"
              "length (case cb of None \<Rightarrow> self_bps | Some c \<Rightarrow> c) \<noteq> 1"
    and n: "promote x \<noteq> []"
    and rows: "answers_rows ch_dist (case cb of None \<Rightarrow> self_bps | Some c \<Rightarrow> c) [promote x ! 0]"
  shows "enc_points self_bps ch_dist x ft xf cb
           \<in> {Inl OracleFailure, Inl IndexError, Inl RuntimeError}"
proof -
  let ?bps = "case cb of None \<Rightarrow> self_bps | Some c \<Rightarrow> c"
  let ?x = "promote x"
  have up: "[0..<length ?x] = 0 # [1..<length ?x]" using n by (simp add: upt_conv_Cons)
  obtain e where e: "enc_item ch_dist ?bps ?x 0 = Inl e"
      "e \<in> {OracleFailure, IndexError, RuntimeError}"
    using enc_item_mismatch [OF nb rows] by auto
  have "enc_loop ch_dist ?bps ?x [0..<length ?x]
          (zeros3 (length ?x) (size1 ?bps) (size2 ?x), zeros2 (length ?x) (size1 ?bps)) = Inl e"
    unfolding up using e(1) by (rule enc_loop_first)
  then have "enc_points self_bps ch_dist x ft xf cb = Inl e"
    unfolding enc_points_def Let_def by simp
  then show ?thesis using e(2) by auto
qed

lemma mismatch_example:
  "enc_points bps1 nn_chamfer (Tensor3 [[[1, 2]], [[3, 4]], [[5, 6]]]) [''dists''] None
     (Some [[[0, 0]], [[1, 1]]]) = Inl RuntimeError"
  by (simp add: enc_eval upt_conv_Cons)

lemma empty_batch_example:
  "enc_points bps1 nn_chamfer (Tensor3 []) [''dists''] None (Some [[[0, 0]], [[1, 1]]])
     = Inr [''dists'' \<mapsto> Float2 [], ''ids'' \<mapsto> Long2 []]"
  by (simp add: enc_points_def zeros3_def zeros2_def size1_def size2_def dists_of_def)


text \<open>
  C3, as the claim states it, fails: with three input items and a custom basis of two
  items the call raises the shape error of a tensor assignment, not a configuration
  error, and with an empty batch and the same basis it returns a bundle.
\<close>

theorem basis_batch_counterexample:
  "enc_points bps1 nn_chamfer (Tensor3 [[[1, 2]], [[3, 4]], [[5, 6]]]) [''dists''] None
     (Some [[[0, 0]], [[1, 1]]]) = Inl RuntimeError
   \<and> enc_points bps1 nn_chamfer (Tensor3 []) [''dists''] None (Some [[[0, 0]], [[1, 1]]])
     = Inr [''dists'' \<mapsto> Float2 [], ''ids'' \<mapsto> Long2 []]"
  using mismatch_example empty_batch_example by (rule conjI)

theorem basis_batch_mismatch_witness:
  "answers_rows nn_chamfer [[[0, 0]], [[1, 1]]] [[[1, 2]]]
   \<and> enc_points bps1 nn_chamfer (Tensor3 [[[1, 2]], [[3, 4]], [[5, 6]]]) [''deltas''] None
        (Some [[[0, 0]], [[1, 1]]])
      \<in> {Inl OracleFailure, Inl IndexError, Inl RuntimeError}"
proof -
  have r: "answers_rows nn_chamfer [[[0, 0]], [[1, 1]]] [[[1, 2]]]"
    by (simp add: answers_rows_def nn_chamfer_def)
  have "enc_points bps1 nn_chamfer (Tensor3 [[[1, 2]], [[3, 4]], [[5, 6]]]) [''deltas''] None
        (Some [[[0, 0]], [[1, 1]]])
      \<in> {Inl OracleFailure, Inl IndexError, Inl RuntimeError}"
    by (rule basis_batch_mismatch) (simp_all add: r)
  then show ?thesis using r by (rule conjI [rotated])
qed


section \<open>The grid of a cube\<close>


lemma np_round_int: "np_round (of_int k) = k"
  by (simp add: np_round_def)

lemma np_round_between:
  assumes "real_of_int k - 1 / 2 < v" "v < real_of_int k + 1 / 2"
  shows "np_round v = k"
proof -
  have r: "round v = k" using assms by (simp add: round_def) linarith
  have "frac v \<noteq> 1 / 2"
  proof
    assume h: "frac v = 1 / 2"
    then have v: "v = real_of_int \<lfloor>v\<rfloor> + 1 / 2" by (simp add: frac_def)
    have "real_of_int (k - 1) < real_of_int \<lfloor>v\<rfloor>" "real_of_int \<lfloor>v\<rfloor> < real_of_int k"
      using assms v by linarith+
    then have "k - 1 < \<lfloor>v\<rfloor>" "\<lfloor>v\<rfloor> < k" by (simp_all only: of_int_less_iff)
    then show False by linarith
  qed
  then show ?thesis using r by (simp add: np_round_def)
qed

lemma grid_size_4_2: "grid_size_of 4 2 = 2"
proof -
  have "(4::real) powr (1 / 2) = 2" by (simp add: powr_half_sqrt)
  then show ?thesis using np_round_int [of 2] by (simp add: grid_size_of_def)
qed

lemma grid_size_8_3: "grid_size_of 8 3 = 2"
proof -
  have "(8::real) = 2 powr 3" by simp
  then have "(8::real) powr (1 / 3) = 2" by (simp add: powr_powr)
  then show ?thesis using np_round_int [of 2] by (simp add: grid_size_of_def)
qed

lemma grid_size_1000_3: "grid_size_of 1000 3 = 10"
proof -
  have "(1000::real) = 10 powr 3" by simp
  then have "(1000::real) powr (1 / 3) = 10" by (simp add: powr_powr)
  then show ?thesis using np_round_int [of 10] by (simp add: grid_size_of_def)
qed

lemma grid_size_1000_2: "grid_size_of 1000 2 = 32"
proof -
  have s: "(1000::real) powr (1 / 2) = sqrt 1000" by (simp add: powr_half_sqrt)
  have "sqrt ((63 / 2)\<^sup>2) < sqrt 1000" by (rule real_sqrt_less_mono) (simp add: power2_eq_square)
  moreover have "sqrt 1000 < sqrt ((65 / 2)\<^sup>2)" by (rule real_sqrt_less_mono) (simp add: power2_eq_square)
  ultimately have "real_of_int 32 - 1 / 2 < sqrt 1000" "sqrt 1000 < real_of_int 32 + 1 / 2"
    by simp_all
  then have "np_round (sqrt 1000) = 32" by (rule np_round_between)
  then show ?thesis by (simp add: grid_size_of_def s)
qed

lemma length_chunks: "length (chunks n k xs) = n"
  by (induction n arbitrary: xs) auto

lemma reshape_basis_count:
  assumes "reshape_basis d elems = Inr [B]"
  shows "length elems = length B * d"
proof -
  have "d \<noteq> 0" "length elems mod d = 0" "B = chunks (length elems div d) d elems"
    using assms by (auto simp: reshape_basis_def split: if_splits)
  then have "length B = length elems div d" by (simp add: length_chunks)
  then show ?thesis using \<open>length elems mod d = 0\<close> by auto
qed

lemma init_grid_cube:
  "d \<noteq> 0 \<Longrightarrow> bps_torch_init S ''grid_cube'' n r d seed rz None
     = reshape_basis d (concat (sample_grid_cube S (grid_size_of n d) (- r) r))"
  by (simp add: bps_torch_init_def Let_def)

lemma grid_cube_example:
  "\<exists>B. bps_torch_init example_samplers ''grid_cube'' 4 1 2 13 False None = Inr [B]
        \<and> length B = 12"
proof -
  let ?E = "concat (sample_grid_cube example_samplers 2 (- 1) 1)"
  have l: "length ?E = 24"
    by (simp add: example_samplers_def length_concat sum_list_replicate)
  then have "reshape_basis 2 ?E = Inr [chunks 12 2 ?E]" by (simp add: reshape_basis_def)
  then have "bps_torch_init example_samplers ''grid_cube'' 4 1 2 13 False None
               = Inr [chunks 12 2 ?E]"
    by (simp add: init_grid_cube grid_size_4_2)
  then show ?thesis using length_chunks by blast
qed

text \<open>
  C8. The grid size is the rounded root: 32 for 1000 points in 2 dimensions, 10 for 1000
  points in 3 dimensions, 2 for 4 points in 2 dimensions and for 8 points in 3
  dimensions. The realised number of points is not the grid size to the power of
  \<open>n_dims\<close>: the sampler is called with the grid size and the bounds only, so whatever it
  returns, the constructions for 4 points in 2 dimensions and for 8 points in 3 dimensions
  reshape the same array and cannot yield 4 and 8 points; with a sampler that builds its
  grid in 3 dimensions the first of them yields 12 points.
\<close>

theorem grid_cube_ignores_n_dims:
  "grid_size_of 1000 2 = 32 \<and> grid_size_of 1000 3 = 10
   \<and> grid_size_of 4 2 = 2 \<and> grid_size_of 8 3 = 2
   \<and> \<not> ((\<exists>B. bps_torch_init S ''grid_cube'' 4 r 2 seed rz None = Inr [B] \<and> length B = 2 ^ 2)
        \<and> (\<exists>B. bps_torch_init S ''grid_cube'' 8 r 3 seed rz None = Inr [B] \<and> length B = 2 ^ 3))
   \<and> (\<exists>B. bps_torch_init example_samplers ''grid_cube'' 4 1 2 13 False None = Inr [B]
          \<and> length B = 12)"
proof -
  let ?E = "concat (sample_grid_cube S 2 (- r) r)"
  have False
    if a: "bps_torch_init S ''grid_cube'' 4 r 2 seed rz None = Inr [B]" "length B = 2 ^ 2"
    and b: "bps_torch_init S ''grid_cube'' 8 r 3 seed rz None = Inr [B']" "length B' = 2 ^ 3"
    for B B'
  proof -
    have "reshape_basis 2 ?E = Inr [B]" using a(1) by (simp add: init_grid_cube grid_size_4_2)
    then have "length ?E = 8" using reshape_basis_count a(2) by fastforce
    moreover have "reshape_basis 3 ?E = Inr [B']" using b(1) by (simp add: init_grid_cube grid_size_8_3)
    then have "length ?E = 24" using reshape_basis_count b(2) by fastforce
    ultimately show False by simp
  qed
  then show ?thesis
    using grid_size_4_2 grid_size_8_3 grid_size_1000_2 grid_size_1000_3 grid_cube_example
    by blast
qed

section \<open>The stored basis\<close>

lemma chunks_shape: "length xs = n * k \<Longrightarrow> list_all (\<lambda>p. length p = k) (chunks n k xs)"
  by (induction n arbitrary: xs) auto

text \<open>
  Whatever the strategy, a construction that succeeds stores a basis of shape
  \<open>[1, P, n_dims]\<close> (line 73), the shape the round trip above asks of it.
\<close>

theorem init_stores_batch_of_one:
  assumes "bps_torch_init S bps_type n_bps_points radius n_dims random_seed randomize custom_basis
             = Inr bps"
  shows "\<exists>P. has_shape bps 1 P n_dims"
proof -
  obtain elems where "reshape_basis n_dims elems = Inr bps"
    using assms unfolding bps_torch_init_def Let_def by (auto split: sum.splits)
  then have d: "n_dims \<noteq> 0" "length elems mod n_dims = 0"
    and b: "bps = [chunks (length elems div n_dims) n_dims elems]"
    by (auto simp: reshape_basis_def split: if_splits)
  have "length elems = (length elems div n_dims) * n_dims" using d by auto
  then have "list_all (\<lambda>p. length p = n_dims) (chunks (length elems div n_dims) n_dims elems)"
    by (rule chunks_shape)
  then have "has_shape bps 1 (length elems div n_dims) n_dims"
    by (simp add: has_shape_def b length_chunks)
  then show ?thesis ..
qed

theorem init_stores_batch_of_one_witness:
  "bps_torch_init example_samplers ''custom'' 4 1 2 13 False (Some (Tensor2 [[1, 2], [3, 4]]))
     = Inr [[[1, 2], [3, 4]]]
   \<and> (\<exists>P. has_shape [[[1, 2], [3, 4::real]]] 1 P 2)"
proof -
  have i: "bps_torch_init example_samplers ''custom'' 4 1 2 13 False (Some (Tensor2 [[1, 2], [3, 4]]))
     = Inr [[[1, 2], [3, 4]]]"
    using reshape_basis_example by (simp add: bps_torch_init_def)
  from init_stores_batch_of_one [OF i] show ?thesis using i by blast
qed

end
